theory Spec2Isabelle
  imports Main
begin

section \<open>The platform\<close>

text \<open>
  \<^verbatim>\<open>projc.c\<close> is compiled either for Windows or for Linux; the two branches of its
  \<^verbatim>\<open>#if\<close> differ in the separator character and in the system calls behind
  \<^verbatim>\<open>mk_dir\<close>, \<^verbatim>\<open>exists\<close> and \<^verbatim>\<open>abspath\<close>.  The limit \<^verbatim>\<open>PATH_MAX\<close> comes from a system
  header (\<^verbatim>\<open>MAX_PATH\<close> of \<^verbatim>\<open>windows.h\<close>, or \<^verbatim>\<open>linux/limits.h\<close>) and is a parameter here,
  as are the answers of the path canonicaliser, the compiler's treatment of identical
  string literals, and the bytes found in automatic buffers that the program reads
  before it has written them.  The Linux branch passes \<^verbatim>\<open>realpath\<close> and \<^verbatim>\<open>mkdir\<close> argument
  lists that the C library does not accept; both are modelled by what the Windows
  branch does with its counterparts.
\<close>

datatype platform = Windows | Linux

record env =
  os :: platform
  PATH_MAX :: nat
  canonical :: "string \<Rightarrow> string option"
  literals_shared :: bool
  stack_dirname :: string
  stack_project :: string
  stack_tmp :: string

definition sep :: "env \<Rightarrow> char" where
  "sep e = (case os e of Windows \<Rightarrow> CHR 0x5C | Linux \<Rightarrow> CHR ''/'')"

section \<open>C strings, buffers and faults\<close>

text \<open>
  A \<^typ>\<open>string\<close> stands for the text of a C string, terminator excluded.  Writing a text
  into \<^verbatim>\<open>char buf[n]\<close> needs room for the text and its terminator; a longer write is
  undefined behaviour in C and is the fault \<open>BufferOverflow\<close> here.  \<^verbatim>\<open>fclose(NULL)\<close> is
  the fault \<open>NullStream\<close>.
\<close>

datatype fault = BufferOverflow | NullStream

definition bind :: "fault + 'a \<Rightarrow> ('a \<Rightarrow> fault + 'b) \<Rightarrow> fault + 'b" where
  "bind r f = (case r of Inl x \<Rightarrow> Inl x | Inr v \<Rightarrow> f v)"

definition sprintf_to :: "nat \<Rightarrow> string \<Rightarrow> fault + string" where
  "sprintf_to n s = (if length s < n then Inr s else Inl BufferOverflow)"

definition strcpy_to :: "nat \<Rightarrow> string \<Rightarrow> fault + string" where
  "strcpy_to n s = sprintf_to n s"

definition strcat_to :: "nat \<Rightarrow> string \<Rightarrow> string \<Rightarrow> fault + string" where
  "strcat_to n buf s = sprintf_to n (buf @ s)"

definition c_str :: "string \<Rightarrow> string" where
  "c_str bytes = takeWhile (\<lambda>c. c \<noteq> CHR 0x00) bytes"

fun for_each :: "('i \<Rightarrow> 's \<Rightarrow> fault + 's) \<Rightarrow> 'i list \<Rightarrow> 's \<Rightarrow> fault + 's" where
  "for_each body [] s = Inr s"
| "for_each body (i # is) s = bind (body i s) (for_each body is)"

section \<open>The file system and standard output\<close>

text \<open>
  The system calls are outside the source.  They are modelled on a file system that
  knows which paths are directories and which are files with which content:
  \<^verbatim>\<open>stat\<close> succeeds on a path that is either; creating a directory or opening a file
  for writing succeeds when the path's parent is a directory and the path is not
  taken by an entry of the other kind.  Permissions and full disks are not modelled.
\<close>

record fsys =
  folders :: "string set"
  files :: "string \<rightharpoonup> string"

record world =
  fs :: fsys
  stdout :: string

definition is_sep :: "platform \<Rightarrow> char \<Rightarrow> bool" where
  "is_sep pf c = (c = CHR ''/'' \<or> (pf = Windows \<and> c = CHR 0x5C))"

definition parent :: "platform \<Rightarrow> string \<Rightarrow> string" where
  "parent pf name = rev (drop 1 (dropWhile (\<lambda>c. \<not> is_sep pf c) (rev name)))"

definition stat :: "fsys \<Rightarrow> string \<Rightarrow> int" where
  "stat f name =
     (if name \<in> folders f then 0
      else case files f name of None \<Rightarrow> - 1 | Some text \<Rightarrow> 0)"

definition os_mkdir :: "platform \<Rightarrow> fsys \<Rightarrow> string \<Rightarrow> fsys" where
  "os_mkdir pf f name =
     (if parent pf name \<in> folders f \<and> stat f name = - 1
      then f\<lparr>folders := insert name (folders f)\<rparr>
      else f)"

definition fopen_w :: "platform \<Rightarrow> fsys \<Rightarrow> string \<Rightarrow> fsys option" where
  "fopen_w pf f name =
     (if parent pf name \<in> folders f \<and> name \<notin> folders f
      then Some (f\<lparr>files := (files f)(name \<mapsto> [])\<rparr>)
      else None)"

definition fprintf :: "fsys \<Rightarrow> string \<Rightarrow> string \<Rightarrow> fsys" where
  "fprintf f name text =
     f\<lparr>files := (files f)(name \<mapsto> (case files f name of None \<Rightarrow> text | Some old \<Rightarrow> old @ text))\<rparr>"

definition printf :: "string \<Rightarrow> world \<Rightarrow> world" where
  "printf text w = w\<lparr>stdout := stdout w @ text\<rparr>"

section \<open>The program\<close>

subsection \<open>Makefile fragments\<close>

definition GCC_MAKE_MACROS :: string where
  "GCC_MAKE_MACROS =
     ''IDIR =./include\<newline>'' @
     ''CC=gcc\<newline>'' @
     ''CFLAGS=-I$(IDIR)\<newline>'' @
     ''ODIR=obj\<newline>'' @
     ''LDIR =./lib\<newline>'' @
     ''LIBS=\<newline>\<newline>'' @
     ''_DEPS = ''"

definition GCC_MAKE_DEPS :: string where
  "GCC_MAKE_DEPS =
     ''.h\<newline>'' @
     ''DEPS = $(patsubst %,$(IDIR)/%,$(_DEPS))\<newline>\<newline>'' @
     ''_OBJ = ''"

definition GCC_MAKE_OBJ :: string where
  "GCC_MAKE_OBJ = ''.o ''"

definition GCC_MAKE_OBJ_BUILD :: string where
  "GCC_MAKE_OBJ_BUILD =
     ''.o\<newline>'' @
     ''OBJ = $(patsubst %,$(ODIR)/%,$(_OBJ))\<newline>\<newline>'' @
     ''$(ODIR)/%.o: %.c $(DEPS)\<newline>'' @
     [CHR 0x09] @ ''$(CC) -c -o $@ $< $(CFLAGS)\<newline>\<newline>''"

definition GCC_MAKE_PHONY :: string where
  "GCC_MAKE_PHONY =
     '': $(OBJ)\<newline>'' @
     [CHR 0x09] @ ''gcc -o $@ $^ $(CFLAGS) $(LIBS)\<newline>\<newline>'' @
     ''.PHONY: clean\<newline>\<newline>'' @
     ''clean:''"

subsection \<open>Platform wrappers\<close>

definition mk_dir :: "env \<Rightarrow> fsys \<Rightarrow> string \<Rightarrow> fsys" where
  "mk_dir e f name = (if stat f name = - 1 then os_mkdir (os e) f name else f)"

definition exists :: "fsys \<Rightarrow> string \<Rightarrow> int" where
  "exists f name = stat f name + 1"

text \<open>
  \<^verbatim>\<open>abspath(dest, name)\<close> fills \<^verbatim>\<open>dest\<close> (of \<^verbatim>\<open>PATH_MAX\<close> bytes) and returns it, or returns
  \<^verbatim>\<open>NULL\<close>; \<open>None\<close> is the \<^verbatim>\<open>NULL\<close> result.
\<close>

definition abspath :: "env \<Rightarrow> string \<Rightarrow> string option" where
  "abspath e name =
     (case canonical e name of
        None \<Rightarrow> None
      | Some d \<Rightarrow> if length d < PATH_MAX e then Some d else None)"

subsection \<open>String helpers\<close>

text \<open>
  \<^verbatim>\<open>strclr\<close> zeroes the bytes \<^verbatim>\<open>strt .. ssize - 1\<close>.  Seen as a C string, the buffer
  then ends at \<^verbatim>\<open>strt\<close> when a byte of the text was zeroed.
\<close>

definition strclr :: "string \<Rightarrow> nat \<Rightarrow> nat \<Rightarrow> string" where
  "strclr str strt ssize = (if strt < ssize then take strt str else str)"

definition byte_at :: "string \<Rightarrow> nat \<Rightarrow> char" where
  "byte_at str i = (if i < length str then str ! i else CHR 0x00)"

fun strslice_stop :: "string \<Rightarrow> char \<Rightarrow> nat \<Rightarrow> int" where
  "strslice_stop str c 0 = (if byte_at str 0 = c then 0 else - 1)"
| "strslice_stop str c (Suc n) =
     (if byte_at str (Suc n) = c then int (Suc n) else strslice_stop str c n)"

text \<open>
  \<^verbatim>\<open>strslice\<close> returns \<^verbatim>\<open>NULL\<close> (\<open>None\<close>) and leaves \<^verbatim>\<open>dest\<close> alone when the separator does
  not occur; otherwise \<^verbatim>\<open>dest\<close> receives the bytes after the last separator, terminator
  included.
\<close>

definition strslice :: "string \<Rightarrow> string \<Rightarrow> string \<Rightarrow> string option" where
  "strslice dest str spr =
     (let stsize = length str;
          stop = strslice_stop str (byte_at spr 0) stsize
      in if stop = - 1 then None
         else if int stsize - stop = 0 then Some dest
         else Some (drop (nat stop + 1) str))"

text \<open>
  C reads \<^verbatim>\<open>0x60 < c < 0x7b\<close> as \<^verbatim>\<open>(0x60 < c) < 0x7b\<close>: the inner comparison
  yields 0 or 1, which is then compared with \<^verbatim>\<open>0x7b\<close>.
\<close>

definition c_less :: "int \<Rightarrow> int \<Rightarrow> int" where
  "c_less a b = (if a < b then 1 else 0)"

definition strupper_byte :: "char \<Rightarrow> char" where
  "strupper_byte c =
     (if c_less (c_less 0x60 (of_char c)) 0x7b \<noteq> 0
      then char_of ((of_char c :: int) - 0x20)
      else c)"

text \<open>
  \<^verbatim>\<open>strupper\<close> writes \<^verbatim>\<open>strlen(str)\<close> bytes and no terminator: the rest of \<^verbatim>\<open>dest\<close>
  stays as it was.
\<close>

definition strupper :: "string \<Rightarrow> string \<Rightarrow> string" where
  "strupper dest str = map strupper_byte str @ drop (length str) dest"

subsection \<open>Creating the artifacts\<close>

definition make_contents :: "string \<Rightarrow> string" where
  "make_contents project =
     GCC_MAKE_MACROS @ project @ GCC_MAKE_DEPS @
     project @ GCC_MAKE_OBJ @ project @ ''_test'' @
     GCC_MAKE_OBJ_BUILD @ project @ ''_app'' @ GCC_MAKE_PHONY"

definition makefile_create :: "env \<Rightarrow> string \<Rightarrow> string \<Rightarrow> string \<Rightarrow> fsys \<Rightarrow> fault + (int \<times> fsys)" where
  "makefile_create e makename project dirname f =
     bind (sprintf_to (PATH_MAX e) (dirname @ [sep e] @ makename)) (\<lambda>make.
       if exists f make = 0 then
         (case fopen_w (os e) f make of
            None \<Rightarrow> Inl NullStream
          | Some f1 \<Rightarrow>
              bind (sprintf_to 432 (make_contents project)) (\<lambda>text.
                Inr (1, fprintf f1 make text)))
       else Inr (0, f))"

text \<open>
  \<^verbatim>\<open>ext == ".h"\<close> compares addresses.  The caller passes string literals of its own, so
  the test succeeds exactly when the texts agree and the compiler gives identical
  literals one address.
\<close>

definition same_literal :: "env \<Rightarrow> string \<Rightarrow> string \<Rightarrow> bool" where
  "same_literal e a b = (literals_shared e \<and> a = b)"

definition header_text :: "string \<Rightarrow> string" where
  "header_text guard =
     ''#ifndef '' @ guard @ ''_H\<newline>#define '' @ guard @
     ''_H\<newline>/* Code goes here */\<newline>\<newline>#endif''"

definition source_text :: "string \<Rightarrow> string" where
  "source_text project =
     ''#include \"'' @ project @ ''.h\"\<newline>\<newline>/* Code goes here */\<newline>\<newline>''"

definition generic_text :: "string \<Rightarrow> string" where
  "generic_text project = ''/* Project '' @ project @ '' */''"

definition touch_text :: "env \<Rightarrow> string \<Rightarrow> string \<Rightarrow> string" where
  "touch_text e project ext =
     (if same_literal e ext ''.h'' then header_text (c_str (strupper (stack_tmp e) project))
      else if same_literal e ext ''.c'' then source_text project
      else generic_text project)"

text \<open>
  When the length test fails, \<^verbatim>\<open>fullpath\<close> is never written; \<^verbatim>\<open>!exists(fullpath) && ret\<close>
  is false whatever \<^verbatim>\<open>stat\<close> says about the stale bytes, and \<^verbatim>\<open>stat\<close> changes nothing.
\<close>

definition touch :: "env \<Rightarrow> string \<Rightarrow> string \<Rightarrow> string \<Rightarrow> fsys \<Rightarrow> fault + (int \<times> fsys)" where
  "touch e path project ext f =
     (if length path + length project + length ext > PATH_MAX e then Inr (0, f)
      else
        bind (sprintf_to (PATH_MAX e) (path @ [sep e] @ project @ ext)) (\<lambda>fullpath.
          if exists f fullpath = 0 then
            (case fopen_w (os e) f fullpath of
               None \<Rightarrow> Inl NullStream
             | Some f1 \<Rightarrow> Inr (1, fprintf f1 fullpath (touch_text e project ext)))
          else Inr (0, f)))"

definition touch_wrap :: "env \<Rightarrow> string \<Rightarrow> string \<Rightarrow> string \<Rightarrow> string \<Rightarrow> world \<Rightarrow> fault + world" where
  "touch_wrap e path name dir ext w =
     (let w1 = printf (''Creating file '' @ name @ ext @ '' in '' @ dir @ '' directory...\<newline>'') w
      in bind (touch e path name ext (fs w1)) (\<lambda>(ret, f).
           if ret = 0
           then Inr (printf (''Failed to create '' @ name @ ext @ '' in '' @ dir @ ''\<newline>'') (w1\<lparr>fs := f\<rparr>))
           else Inr (printf (name @ ext @ '' created in '' @ dir @ ''\<newline>'') (w1\<lparr>fs := f\<rparr>))))"

definition create_dir :: "env \<Rightarrow> string \<Rightarrow> string \<Rightarrow> fsys \<Rightarrow> fault + (int \<times> fsys)" where
  "create_dir e dirname destname f =
     (if length dirname + length destname > PATH_MAX e then Inr (0, f)
      else
        bind (sprintf_to (PATH_MAX e) (dirname @ [sep e] @ destname)) (\<lambda>destdir.
          if exists f destdir = 0 then Inr (1, mk_dir e f destdir)
          else Inr (0, f)))"

definition file_ext :: "string list" where
  "file_ext = [''.h'', ''.c'']"

definition create_files_dirs :: "string list" where
  "create_files_dirs = [''lib'', ''src'', ''test'']"

text \<open>The loop body of \<^verbatim>\<open>create_files\<close>; the path buffer \<^verbatim>\<open>tmp\<close> is carried along.\<close>

definition create_files_body :: "env \<Rightarrow> string \<Rightarrow> string \<Rightarrow> nat \<Rightarrow> string \<times> world \<Rightarrow> fault + (string \<times> world)" where
  "create_files_body e dirname project i s =
     (case s of (tmp0, w) \<Rightarrow>
        bind (strcat_to (PATH_MAX e) (strclr tmp0 (length dirname + 1) (length tmp0)) (create_files_dirs ! i)) (\<lambda>tmp.
          bind
            (if i = 1 then
               bind (strcpy_to (PATH_MAX e) project) (\<lambda>tmp2.
                 bind (strcat_to (PATH_MAX e) tmp2 ''_app'') (\<lambda>name.
                   touch_wrap e tmp name (create_files_dirs ! i) (file_ext ! 1) w))
             else if i = 2 then
               bind (strcpy_to (PATH_MAX e) project) (\<lambda>tmp2.
                 bind (strcat_to (PATH_MAX e) tmp2 ''_test'') (\<lambda>name.
                   touch_wrap e tmp name (create_files_dirs ! i) (file_ext ! 1) w))
             else touch_wrap e tmp project (create_files_dirs ! i) (file_ext ! 1) w)
            (\<lambda>w'. Inr (tmp, w'))))"

definition create_files :: "env \<Rightarrow> string \<Rightarrow> string \<Rightarrow> world \<Rightarrow> fault + world" where
  "create_files e dirname project w =
     bind (sprintf_to (PATH_MAX e) (dirname @ [sep e] @ create_files_dirs ! 0)) (\<lambda>tmp.
       bind (touch_wrap e tmp project (create_files_dirs ! 0) (file_ext ! 0) w) (\<lambda>w1.
         bind (for_each (create_files_body e dirname project) [0..<3] (tmp, w1)) (\<lambda>s.
           Inr (snd s))))"

definition mks :: "string list" where
  "mks = [''Makefile'', ''Makefile.win'']"

definition create_makes_body :: "env \<Rightarrow> string \<Rightarrow> string \<Rightarrow> nat \<Rightarrow> world \<Rightarrow> fault + world" where
  "create_makes_body e dirname project i w =
     (let w1 = printf (''Creating '' @ mks ! i @ ''...'') w
      in bind (makefile_create e (mks ! i) project dirname (fs w1)) (\<lambda>(ret, f).
           if ret = 0
           then Inr (printf (''Failed to create '' @ mks ! i @ ''; '' @ mks ! i @ '' may already exist.'') (w1\<lparr>fs := f\<rparr>))
           else Inr (printf (mks ! i @ '' was created.'') (w1\<lparr>fs := f\<rparr>))))"

definition create_makes :: "env \<Rightarrow> string \<Rightarrow> string \<Rightarrow> world \<Rightarrow> fault + world" where
  "create_makes e dirname project w = for_each (create_makes_body e dirname project) [0..<2] w"

definition create_tree_dirs :: "string list" where
  "create_tree_dirs = [''lib'', ''src'', ''test'', ''include'']"

text \<open>
  In \<^verbatim>\<open>create_tree\<close> the message buffer is overwritten by \<^verbatim>\<open>sprintf\<close> from its start, so
  \<^verbatim>\<open>puts\<close> prints the directory name and \<^verbatim>\<open>" directory..."\<close>.
\<close>

definition create_tree_body :: "env \<Rightarrow> string \<Rightarrow> nat \<Rightarrow> world \<Rightarrow> fault + world" where
  "create_tree_body e dirname i w =
     bind (sprintf_to 256 (create_tree_dirs ! i @ '' directory...'')) (\<lambda>tmp.
       let w1 = printf (tmp @ ''\<newline>'') w
       in bind (create_dir e dirname (create_tree_dirs ! i) (fs w1)) (\<lambda>(ret, f).
            if ret = 0
            then Inr (printf (''Failed to create '' @ create_tree_dirs ! i @
                   '' directory. Directory already exists or path exceeds MAX_PATH.\<newline>'') (w1\<lparr>fs := f\<rparr>))
            else Inr (printf (''Directory '' @ create_tree_dirs ! i @ '' created.\<newline>'') (w1\<lparr>fs := f\<rparr>))))"

definition create_tree :: "env \<Rightarrow> string \<Rightarrow> world \<Rightarrow> fault + world" where
  "create_tree e dirname w = for_each (create_tree_body e dirname) [0..<4] w"

text \<open>
  \<^verbatim>\<open>main\<close> ignores what \<^verbatim>\<open>abspath\<close> returns.  Its test \<^verbatim>\<open>dirname == NULL\<close> compares the
  address of an array and is never true, so a failed call leaves \<^verbatim>\<open>dirname\<close> with
  whatever bytes it held.  \<open>argv\<close> includes the program name, \<^verbatim>\<open>argc\<close> is its length.
\<close>

definition scaffold :: "env \<Rightarrow> string \<Rightarrow> string \<Rightarrow> world \<Rightarrow> fault + (int \<times> world)" where
  "scaffold e dirname project w =
     bind (create_tree e dirname w) (\<lambda>w1.
       bind (create_files e dirname project w1) (\<lambda>w2.
         bind (create_makes e dirname project w2) (\<lambda>w3.
           Inr (0, w3))))"

definition main :: "env \<Rightarrow> string list \<Rightarrow> world \<Rightarrow> fault + (int \<times> world)" where
  "main e argv w =
     (if length argv = 2 then
        (let dirname = (case abspath e (argv ! 1) of
                          Some d \<Rightarrow> d
                        | None \<Rightarrow> c_str (stack_dirname e))
         in bind (strcpy_to (PATH_MAX e) (argv ! 1)) (\<lambda>project.
              scaffold e dirname project w))
      else if length argv = 1 then
        (let dot = c_str (CHR ''.'' # drop 1 (stack_dirname e));
             dirname = (case abspath e dot of Some d \<Rightarrow> d | None \<Rightarrow> dot);
             project = (case strslice (c_str (stack_project e)) dirname [sep e] of
                          Some p \<Rightarrow> p
                        | None \<Rightarrow> c_str (stack_project e))
         in scaffold e dirname project w)
      else Inr (1, w))"

section \<open>Concrete runs\<close>

text \<open>
  A Linux build with shared literals and zeroed buffers, started as \<^verbatim>\<open>projc demo\<close> in
  \<^verbatim>\<open>/w\<close>, where \<^verbatim>\<open>/w/demo\<close> is an existing empty directory and nothing has been printed.
\<close>

definition linux_env :: env where
  "linux_env =
     \<lparr>os = Linux, PATH_MAX = 4096,
      canonical = (\<lambda>name. if name = ''demo'' then Some ''/w/demo'' else None),
      literals_shared = True,
      stack_dirname = [], stack_project = [], stack_tmp = []\<rparr>"

definition fresh_root :: world where
  "fresh_root = \<lparr>fs = \<lparr>folders = {''/w/demo''}, files = Map.empty\<rparr>, stdout = []\<rparr>"

text \<open>
  The same program started as \<^verbatim>\<open>projc nosuch\<close> in the root directory of an otherwise
  empty disk: \<^verbatim>\<open>nosuch\<close> does not exist, so the canonicaliser of \<open>linux_env\<close> fails.  The
  root directory is the path with nothing before its separator.
\<close>

definition empty_disk :: world where
  "empty_disk = \<lparr>fs = \<lparr>folders = {[]}, files = Map.empty\<rparr>, stdout = []\<rparr>"

text \<open>
  A Windows build (\<^verbatim>\<open>MAX_PATH\<close> is 260) started as \<^verbatim>\<open>projc demo\<close> where \<^verbatim>\<open>demo\<close> resolves
  to an existing empty directory whose absolute path has 251 characters.
\<close>

definition deep_root :: string where
  "deep_root = ''C:'' @ [CHR 0x5C] @ replicate 243 (CHR ''a'') @ [CHR 0x5C] @ ''demo''"

definition windows_env :: env where
  "windows_env =
     \<lparr>os = Windows, PATH_MAX = 260,
      canonical = (\<lambda>name. if name = ''demo'' then Some deep_root else None),
      literals_shared = True,
      stack_dirname = [], stack_project = [], stack_tmp = []\<rparr>"

definition deep_world :: world where
  "deep_world = \<lparr>fs = \<lparr>folders = {deep_root}, files = Map.empty\<rparr>, stdout = []\<rparr>"

section \<open>The build file as the specification words it\<close>

text \<open>
  The lines of the build file that do not depend on the project name, and the build
  file as the specification describes it: the project name at three places, and
  \<open>_test.o\<close> as the only object.
\<close>

definition macro_block :: string where
  "macro_block =
     ''IDIR =./include\<newline>CC=gcc\<newline>CFLAGS=-I$(IDIR)\<newline>ODIR=obj\<newline>LDIR =./lib\<newline>LIBS=\<newline>\<newline>''"

definition deps_rule :: string where
  "deps_rule = ''DEPS = $(patsubst %,$(IDIR)/%,$(_DEPS))\<newline>\<newline>''"

definition obj_rule :: string where
  "obj_rule = ''OBJ = $(patsubst %,$(ODIR)/%,$(_OBJ))\<newline>\<newline>''"

definition compile_rule :: string where
  "compile_rule =
     ''$(ODIR)/%.o: %.c $(DEPS)\<newline>'' @ [CHR 0x09] @ ''$(CC) -c -o $@ $< $(CFLAGS)\<newline>\<newline>''"

definition link_rule :: string where
  "link_rule =
     '': $(OBJ)\<newline>'' @ [CHR 0x09] @ ''gcc -o $@ $^ $(CFLAGS) $(LIBS)\<newline>\<newline>'' @
     ''.PHONY: clean\<newline>\<newline>clean:''"

definition claimed_make_contents :: "string \<Rightarrow> string" where
  "claimed_make_contents project =
     macro_block @
     ''_DEPS = '' @ project @ ''.h\<newline>'' @ deps_rule @
     ''_OBJ = '' @ project @ ''_test.o\<newline>'' @ obj_rule @
     compile_rule @
     project @ ''_app'' @ link_rule"

section \<open>Notions for the proofs\<close>

text \<open>
  \<open>fs_le a b\<close>: every directory of \<open>a\<close> is a directory of \<open>b\<close>, and every file of \<open>a\<close> is a
  file of \<open>b\<close> with the same content.  A step \<open>grows\<close> the file system when its result
  extends the state it started from and does not create the root \<open>d\<close> itself; it
  \<open>settles\<close> when, run again on any extension of its own result, it completes and
  changes no file and no directory.
\<close>


text \<open>What a complete run leaves in a root directory that was empty.\<close>

definition layout :: "env \<Rightarrow> string \<Rightarrow> string \<Rightarrow> fsys" where
  "layout e root project =
     \<lparr>folders = {root @ sep e # ''include'', root @ sep e # ''test'',
                 root @ sep e # ''src'', root @ sep e # ''lib'', root},
      files = Map.empty
        (root @ sep e # ''lib'' @ sep e # project @ ''.h'' \<mapsto> touch_text e project ''.h'',
         root @ sep e # ''lib'' @ sep e # project @ ''.c'' \<mapsto> touch_text e project ''.c'',
         root @ sep e # ''src'' @ sep e # project @ ''_app.c'' \<mapsto> touch_text e (project @ ''_app'') ''.c'',
         root @ sep e # ''test'' @ sep e # project @ ''_test.c'' \<mapsto> touch_text e (project @ ''_test'') ''.c'',
         root @ sep e # ''Makefile'' \<mapsto> make_contents project,
         root @ sep e # ''Makefile.win'' \<mapsto> make_contents project)\<rparr>"




section \<open>Upper-casing\<close>

lemma strupper_byte_shift: "strupper_byte c = char_of ((of_char c :: int) - 0x20)"
  by (simp add: strupper_byte_def c_less_def)

text \<open>
  C4.  The claim is that upper-casing maps \<open>a\<close>--\<open>z\<close> to \<open>A\<close>--\<open>Z\<close> and leaves every other
  character alone, so that \<open>my_proj1\<close> becomes \<open>MY_PROJ1\<close>.  The comparison chain in
  \<^verbatim>\<open>strupper\<close> is always true, so the code subtracts \<open>0x20\<close> from every byte: the first
  eight bytes written for \<open>my_proj1\<close> are \<open>MY?PROJ\<close> followed by the byte \<open>0x11\<close>, not
  \<open>MY_PROJ1\<close>.
\<close>

theorem strupper_my_proj1:
  "take 8 (strupper dest ''my_proj1'') = ''MY?PROJ'' @ [CHR 0x11] \<and>
   take 8 (strupper dest ''my_proj1'') \<noteq> ''MY_PROJ1''"
  by (simp add: strupper_def strupper_byte_def c_less_def char_of_eq_iff)

section \<open>Argument handling\<close>

text \<open>
  C7, as claimed: with two or more positional arguments the program prints a usage
  message.  It does not: started with two positional arguments and nothing printed so
  far, the run ends with exit status 1 in the very world it started in, whose output is
  still empty.
\<close>

theorem usage_not_printed:
  "main linux_env [''projc'', ''demo'', ''extra''] fresh_root = Inr (1, fresh_root) \<and>
   stdout fresh_root = []"
  by (simp add: main_def fresh_root_def)

text \<open>
  C7, amended: with two or more positional arguments (\<^verbatim>\<open>argc\<close> at least 3) the program
  exits with status 1, prints nothing and creates no files or directories: the world
  is returned unchanged.
\<close>

theorem main_too_many_args:
  "2 < length argv \<Longrightarrow> main e argv w = Inr (1, w)"
  by (simp add: main_def)

theorem main_too_many_args_witness:
  "2 < length [''projc'', ''one'', ''two''] \<and>
   main linux_env [''projc'', ''one'', ''two''] fresh_root = Inr (1, fresh_root)"
  using main_too_many_args [of "[''projc'', ''one'', ''two'']" linux_env fresh_root] by simp

section \<open>Basic facts\<close>

lemma bind_Inr [simp]: "bind (Inr v) f = f v"
  by (simp add: bind_def)

lemma bind_Inl [simp]: "bind (Inl x) f = Inl x"
  by (simp add: bind_def)

lemma bind_eq_Inr: "bind r f = Inr y \<longleftrightarrow> (\<exists>v. r = Inr v \<and> f v = Inr y)"
  by (cases r) simp_all

lemma sprintf_to_eq_Inr: "sprintf_to n s = Inr t \<longleftrightarrow> length s < n \<and> t = s"
  by (auto simp: sprintf_to_def)

lemma sprintf_to_fits: "length s < n \<Longrightarrow> sprintf_to n s = Inr s"
  by (simp add: sprintf_to_def)

lemma sprintf_to_overflow: "n \<le> length s \<Longrightarrow> sprintf_to n s = Inl BufferOverflow"
  by (simp add: sprintf_to_def)

lemma upt_0_2: "[0..<2] = [0, 1]"
  by (simp add: upt_rec)

lemma upt_0_3: "[0..<3] = [0, 1, 2]"
  by (simp add: upt_rec)

lemma upt_0_4: "[0..<4] = [0, 1, 2, 3]"
  by (simp add: upt_rec)

lemma is_sep_sep: "is_sep (os e) (sep e)"
  by (cases "os e") (simp_all add: is_sep_def sep_def)

lemma parent_last_component:
  assumes "\<forall>c\<in>set b. \<not> is_sep pf c" and "is_sep pf s"
  shows "parent pf (a @ s # b) = a"
proof -
  have "dropWhile (\<lambda>c. \<not> is_sep pf c) (rev b @ s # rev a) = s # rev a"
    using assms by (simp add: dropWhile_append)
  then show ?thesis by (simp add: parent_def)
qed

lemma stat_cases: "stat f name = 0 \<or> stat f name = - 1"
  by (simp add: stat_def split: option.splits)

lemma exists_eq_0: "exists f name = 0 \<longleftrightarrow> stat f name = - 1"
  unfolding exists_def by linarith

lemma stat_absent: "stat f name = - 1 \<longleftrightarrow> name \<notin> folders f \<and> files f name = None"
  by (simp add: stat_def split: option.splits)

section \<open>Extension of file systems\<close>






section \<open>What one call does\<close>

lemma fopen_fprintf_fresh:
  "files f name = None \<Longrightarrow> fopen_w pf f name = Some f1 \<Longrightarrow>
   fprintf f1 name text = f\<lparr>files := (files f)(name \<mapsto> text)\<rparr>"
  by (auto simp: fopen_w_def fprintf_def split: if_splits)


lemma makefile_create_result:
  assumes "makefile_create e makename project dirname f = Inr (r, f')"
  shows "(stat f (dirname @ sep e # makename) = 0 \<and> r = 0 \<and> f' = f) \<or>
         (r = 1 \<and> stat f (dirname @ sep e # makename) = - 1 \<and>
          f' = f\<lparr>files := (files f)(dirname @ sep e # makename \<mapsto> make_contents project)\<rparr>)"
  using assms stat_cases [of f "dirname @ sep e # makename"]
  by (auto simp: makefile_create_def bind_eq_Inr sprintf_to_eq_Inr exists_eq_0 stat_absent
        fopen_fprintf_fresh split: if_splits option.splits)










section \<open>Steps on the world\<close>

lemma fs_printf [simp]: "fs (printf text w) = fs w"
  by (simp add: printf_def)















section \<open>Loops\<close>







section \<open>The file loop, unrolled\<close>

lemma bind_assoc: "bind (bind r f) g = bind r (\<lambda>v. bind (f v) g)"
  by (cases r) simp_all

lemma bind_Inr_right: "bind r (\<lambda>v. Inr v) = r"
  by (cases r) simp_all

lemma create_files_unrolled:
  assumes "length dirname + 5 < PATH_MAX e" and "length project + 5 < PATH_MAX e"
  shows "create_files e dirname project w =
     bind (touch_wrap e (dirname @ sep e # ''lib'') project ''lib'' ''.h'' w) (\<lambda>w1.
       bind (touch_wrap e (dirname @ sep e # ''lib'') project ''lib'' ''.c'' w1) (\<lambda>w2.
         bind (touch_wrap e (dirname @ sep e # ''src'') (project @ ''_app'') ''src'' ''.c'' w2) (\<lambda>w3.
           touch_wrap e (dirname @ sep e # ''test'') (project @ ''_test'') ''test'' ''.c'' w3)))"
  using assms
  by (simp add: create_files_def create_files_body_def upt_0_3 sprintf_to_fits
      strcat_to_def strcpy_to_def strclr_def create_files_dirs_def file_ext_def
      bind_assoc bind_Inr_right)









section \<open>Fresh targets\<close>

lemma length_make_contents: "length (make_contents project) = 299 + 4 * length project"
  by (simp add: make_contents_def GCC_MAKE_MACROS_def GCC_MAKE_DEPS_def GCC_MAKE_OBJ_def
      GCC_MAKE_OBJ_BUILD_def GCC_MAKE_PHONY_def)

lemma create_dir_fresh:
  assumes "length dirname + length destname + 1 < PATH_MAX e"
    and "stat f (dirname @ sep e # destname) = - 1"
    and "dirname \<in> folders f"
    and "\<forall>c\<in>set destname. \<not> is_sep (os e) c"
  shows "create_dir e dirname destname f =
         Inr (1, f\<lparr>folders := insert (dirname @ sep e # destname) (folders f)\<rparr>)"
  using assms
  by (simp add: create_dir_def sprintf_to_def exists_def mk_dir_def os_mkdir_def
      parent_last_component is_sep_sep)

lemma touch_fresh:
  assumes "length path + length project + length ext + 1 < PATH_MAX e"
    and "stat f (path @ sep e # project @ ext) = - 1"
    and "path \<in> folders f"
    and "\<forall>c\<in>set (project @ ext). \<not> is_sep (os e) c"
  shows "touch e path project ext f =
         Inr (1, f\<lparr>files := (files f)(path @ sep e # project @ ext \<mapsto> touch_text e project ext)\<rparr>)"
proof -
  have par: "parent (os e) (path @ sep e # project @ ext) = path"
    using assms(4) by (intro parent_last_component is_sep_sep)
  from assms(2) have absent: "path @ sep e # project @ ext \<notin> folders f"
    "files f (path @ sep e # project @ ext) = None"
    by (simp_all add: stat_absent)
  with assms(3) par have "fopen_w (os e) f (path @ sep e # project @ ext) =
      Some (f\<lparr>files := (files f)(path @ sep e # project @ ext \<mapsto> [])\<rparr>)"
    by (simp add: fopen_w_def)
  with assms(1,2) show ?thesis
    by (simp add: touch_def sprintf_to_def exists_def fprintf_def)
qed

lemma makefile_create_fresh:
  assumes "length dirname + length makename + 1 < PATH_MAX e"
    and "stat f (dirname @ sep e # makename) = - 1"
    and "dirname \<in> folders f"
    and "\<forall>c\<in>set makename. \<not> is_sep (os e) c"
    and "length project \<le> 33"
  shows "makefile_create e makename project dirname f =
         Inr (1, f\<lparr>files := (files f)(dirname @ sep e # makename \<mapsto> make_contents project)\<rparr>)"
proof -
  have par: "parent (os e) (dirname @ sep e # makename) = dirname"
    using assms(4) by (intro parent_last_component is_sep_sep)
  from assms(2) have absent: "dirname @ sep e # makename \<notin> folders f"
    "files f (dirname @ sep e # makename) = None"
    by (simp_all add: stat_absent)
  with assms(3) par have "fopen_w (os e) f (dirname @ sep e # makename) =
      Some (f\<lparr>files := (files f)(dirname @ sep e # makename \<mapsto> [])\<rparr>)"
    by (simp add: fopen_w_def)
  with assms(1,2,5) show ?thesis
    by (simp add: makefile_create_def sprintf_to_def exists_def fprintf_def length_make_contents)
qed

lemma scaffold_fresh:
  assumes "length root + length project + 13 < PATH_MAX e"
    and "length project \<le> 33"
    and "\<forall>c\<in>set project. \<not> is_sep (os e) c"
    and "fs w = \<lparr>folders = {root}, files = Map.empty\<rparr>"
  shows "\<exists>w'. scaffold e root project w = Inr (0, w') \<and> fs w' = layout e root project"
proof -
  have plain: "\<not> is_sep (os e) c" if "c \<in> set project" for c
    using assms(3) that by blast
  show ?thesis
    using assms(1,2,4) plain
    by (simp add: scaffold_def layout_def
      create_tree_def create_tree_body_def create_tree_dirs_def upt_0_4 upt_0_2
      create_files_unrolled touch_wrap_def sprintf_to_def
      create_makes_def create_makes_body_def mks_def
      create_dir_fresh touch_fresh makefile_create_fresh stat_def is_sep_def)
qed

lemma main_resolved:
  assumes "canonical e project = Some root" and "length root + length project + 13 < PATH_MAX e"
  shows "main e [prog, project] w = scaffold e root project w"
  using assms by (simp add: main_def abspath_def strcpy_to_def sprintf_to_def)

lemma main_fresh_run:
  assumes "canonical e project = Some root"
    and "length root + length project + 13 < PATH_MAX e"
    and "length project \<le> 33"
    and "\<forall>c\<in>set project. \<not> is_sep (os e) c"
    and "fs w = \<lparr>folders = {root}, files = Map.empty\<rparr>"
  shows "\<exists>w'. main e [prog, project] w = Inr (0, w') \<and> fs w' = layout e root project"
  using scaffold_fresh [OF assms(2-5)] main_resolved [OF assms(1,2)] by simp

lemma demo_run:
  "\<exists>w'. main linux_env [''projc'', ''demo''] fresh_root = Inr (0, w') \<and>
        fs w' = layout linux_env ''/w/demo'' ''demo''"
  by (rule main_fresh_run) (simp_all add: linux_env_def fresh_root_def is_sep_def)

lemma length_parent: "length (parent pf name) \<le> length name"
proof -
  have "length (dropWhile (\<lambda>c. \<not> is_sep pf c) (rev name)) \<le> length (rev name)"
    by (rule length_dropWhile_le)
  then show ?thesis by (simp add: parent_def)
qed

lemma parent_not_longer: "parent pf name \<noteq> name @ c # rest"
  using length_parent [of pf name] by (auto dest: arg_cong [where f = length])

lemma touch_text_nonempty: "touch_text e project ext \<noteq> []"
  by (simp add: touch_text_def header_text_def source_text_def generic_text_def)

lemma make_contents_nonempty: "make_contents project \<noteq> []"
  using length_make_contents [of project] by auto

lemma layout_facts:
  assumes "\<forall>c\<in>set project. \<not> is_sep (os e) c"
  shows "folders (layout e root project) =
           {root, root @ sep e # ''lib'', root @ sep e # ''src'', root @ sep e # ''test'',
            root @ sep e # ''include''}"
    and "dom (files (layout e root project)) =
           {root @ sep e # ''lib'' @ sep e # project @ ''.h'',
            root @ sep e # ''lib'' @ sep e # project @ ''.c'',
            root @ sep e # ''src'' @ sep e # project @ ''_app.c'',
            root @ sep e # ''test'' @ sep e # project @ ''_test.c'',
            root @ sep e # ''Makefile'',
            root @ sep e # ''Makefile.win''}"
    and "\<forall>name\<in>dom (files (layout e root project)). files (layout e root project) name \<noteq> Some []"
    and "\<forall>name\<in>folders (layout e root project) \<union> dom (files (layout e root project)).
           parent (os e) name \<noteq> root @ sep e # ''include''"
proof -
  show "folders (layout e root project) =
           {root, root @ sep e # ''lib'', root @ sep e # ''src'', root @ sep e # ''test'',
            root @ sep e # ''include''}"
    by (auto simp: layout_def)
  show "dom (files (layout e root project)) =
           {root @ sep e # ''lib'' @ sep e # project @ ''.h'',
            root @ sep e # ''lib'' @ sep e # project @ ''.c'',
            root @ sep e # ''src'' @ sep e # project @ ''_app.c'',
            root @ sep e # ''test'' @ sep e # project @ ''_test.c'',
            root @ sep e # ''Makefile'',
            root @ sep e # ''Makefile.win''}"
    by (auto simp: layout_def)
  show "\<forall>name\<in>dom (files (layout e root project)). files (layout e root project) name \<noteq> Some []"
    by (auto simp: layout_def touch_text_nonempty make_contents_nonempty split: if_splits)
  have p1: "parent (os e) (root @ sep e # b) = root" if "\<forall>c\<in>set b. \<not> is_sep (os e) c" for b
    using that by (intro parent_last_component is_sep_sep)
  have p2: "parent (os e) ((root @ sep e # a) @ sep e # project @ b) = root @ sep e # a"
    if "\<forall>c\<in>set b. \<not> is_sep (os e) c" for a b
    by (rule parent_last_component [OF _ is_sep_sep]) (use assms that in auto)
  have f: "parent (os e) (root @ sep e # ''lib'') = root"
    "parent (os e) (root @ sep e # ''src'') = root"
    "parent (os e) (root @ sep e # ''test'') = root"
    "parent (os e) (root @ sep e # ''include'') = root"
    "parent (os e) (root @ sep e # ''Makefile'') = root"
    "parent (os e) (root @ sep e # ''Makefile.win'') = root"
    by (simp_all add: p1 is_sep_def)
  have g: "parent (os e) (root @ sep e # ''lib'' @ sep e # project @ ''.h'') = root @ sep e # ''lib''"
    "parent (os e) (root @ sep e # ''lib'' @ sep e # project @ ''.c'') = root @ sep e # ''lib''"
    "parent (os e) (root @ sep e # ''src'' @ sep e # project @ ''_app.c'') = root @ sep e # ''src''"
    "parent (os e) (root @ sep e # ''test'' @ sep e # project @ ''_test.c'') = root @ sep e # ''test''"
    using p2 [of "''.h''" "''lib''"] p2 [of "''.c''" "''lib''"] p2 [of "''_app.c''" "''src''"]
      p2 [of "''_test.c''" "''test''"]
    by (simp_all add: is_sep_def)
  show "\<forall>name\<in>folders (layout e root project) \<union> dom (files (layout e root project)).
           parent (os e) name \<noteq> root @ sep e # ''include''"
    unfolding layout_def using f g parent_not_longer [of "os e" root "sep e" "''include''"]
    by (auto split: if_splits)
qed

text \<open>
  C1, amended: started with a project name that has no separator and is at most 33
  characters long, resolving to a root directory that exists and is empty, with
  paths short enough for every buffer, the run ends with exit status 0 and leaves
  exactly the directories \<open>lib\<close>, \<open>src\<close>, \<open>test\<close>, \<open>include\<close> under the root and exactly
  the files \<open>lib/p.h\<close>, \<open>lib/p.c\<close>, \<open>src/p_app.c\<close>, \<open>test/p_test.c\<close>, \<open>Makefile\<close> and
  \<open>Makefile.win\<close>; every file has non-empty content and nothing lies in \<open>include\<close>.
  The plain source file \<open>p.c\<close> is in \<open>lib\<close>, beside the header, not in \<open>src\<close>.
\<close>

theorem full_run_layout:
  assumes "canonical e project = Some root"
    and "length root + length project + 13 < PATH_MAX e"
    and "length project \<le> 33"
    and "\<forall>c\<in>set project. \<not> is_sep (os e) c"
    and "fs w = \<lparr>folders = {root}, files = Map.empty\<rparr>"
  shows "\<exists>w'. main e [prog, project] w = Inr (0, w') \<and>
     folders (fs w') =
       {root, root @ sep e # ''lib'', root @ sep e # ''src'', root @ sep e # ''test'',
        root @ sep e # ''include''} \<and>
     dom (files (fs w')) =
       {root @ sep e # ''lib'' @ sep e # project @ ''.h'',
        root @ sep e # ''lib'' @ sep e # project @ ''.c'',
        root @ sep e # ''src'' @ sep e # project @ ''_app.c'',
        root @ sep e # ''test'' @ sep e # project @ ''_test.c'',
        root @ sep e # ''Makefile'',
        root @ sep e # ''Makefile.win''} \<and>
     (\<forall>name\<in>dom (files (fs w')). files (fs w') name \<noteq> Some []) \<and>
     (\<forall>name\<in>folders (fs w') \<union> dom (files (fs w')).
        parent (os e) name \<noteq> root @ sep e # ''include'')"
proof -
  from main_fresh_run [OF assms] obtain w' where
    "main e [prog, project] w = Inr (0, w')" "fs w' = layout e root project" by blast
  note run = this
  note facts = layout_facts [OF assms(4), of root, folded run(2)]
  from run(1) facts show ?thesis
    by blast
qed

theorem full_run_layout_witness:
  "\<exists>w'. main linux_env [''projc'', ''demo''] fresh_root = Inr (0, w') \<and>
     folders (fs w') =
       {''/w/demo'', ''/w/demo/lib'', ''/w/demo/src'', ''/w/demo/test'', ''/w/demo/include''} \<and>
     dom (files (fs w')) =
       {''/w/demo/lib/demo.h'', ''/w/demo/lib/demo.c'', ''/w/demo/src/demo_app.c'',
        ''/w/demo/test/demo_test.c'', ''/w/demo/Makefile'', ''/w/demo/Makefile.win''}"
proof -
  from full_run_layout [of linux_env "''demo''" "''/w/demo''" fresh_root "''projc''"]
  obtain w' where "main linux_env [''projc'', ''demo''] fresh_root = Inr (0, w')"
    "folders (fs w') =
       {''/w/demo'', ''/w/demo/lib'', ''/w/demo/src'', ''/w/demo/test'', ''/w/demo/include''}"
    "dom (files (fs w')) =
       {''/w/demo/lib/demo.h'', ''/w/demo/lib/demo.c'', ''/w/demo/src/demo_app.c'',
        ''/w/demo/test/demo_test.c'', ''/w/demo/Makefile'', ''/w/demo/Makefile.win''}"
    by (auto simp: linux_env_def fresh_root_def is_sep_def sep_def)
  then show ?thesis by blast
qed

text \<open>
  C1, as claimed: the plain source file \<open>p.c\<close> is created in \<open>src\<close>.  After the run for
  \<open>demo\<close> there is no \<open>src/demo.c\<close>; the loop of \<^verbatim>\<open>create_files\<close> starts at the directory
  \<open>lib\<close> and its default case writes \<open>demo.c\<close> there.
\<close>

theorem plain_source_not_in_src:
  "(case main linux_env [''projc'', ''demo''] fresh_root of
      Inl x \<Rightarrow> False
    | Inr (c, w) \<Rightarrow> files (fs w) ''/w/demo/src/demo.c'' = None \<and>
                    files (fs w) ''/w/demo/lib/demo.c'' \<noteq> None)"
proof -
  from demo_run obtain w' where "main linux_env [''projc'', ''demo''] fresh_root = Inr (0, w')"
    "fs w' = layout linux_env ''/w/demo'' ''demo''" by blast
  then show ?thesis by (simp add: layout_def linux_env_def sep_def)
qed


text \<open>
  C5, as claimed: \<open>p_test.c\<close> is the one-line Generic stub and contains no \<open>#include\<close>.
  In a build with shared literals the file for \<open>demo\<close> starts with an \<open>#include\<close> line.
\<close>

theorem test_file_is_source_stub:
  "(case main linux_env [''projc'', ''demo''] fresh_root of
      Inl x \<Rightarrow> None
    | Inr (c, w) \<Rightarrow> files (fs w) ''/w/demo/test/demo_test.c'') =
   Some ''#include \"demo_test.h\"\<newline>\<newline>/* Code goes here */\<newline>\<newline>''"
proof -
  from demo_run obtain w' where "main linux_env [''projc'', ''demo''] fresh_root = Inr (0, w')"
    "fs w' = layout linux_env ''/w/demo'' ''demo''" by blast
  then show ?thesis
    by (simp add: layout_def linux_env_def sep_def touch_text_def same_literal_def source_text_def)
qed

text \<open>
  C5, amended: \<open>p_test.c\<close> in \<open>test\<close> is rendered by the extension test of \<^verbatim>\<open>touch\<close> like
  every other \<open>.c\<close> file: where the compiler shares identical string literals it is the
  Source template, an \<open>#include\<close> line followed by the comment stub; only where it does
  not is it the Generic one-line stub.  Which header the line names is left open here.
\<close>

theorem test_file_by_extension:
  assumes "canonical e project = Some root"
    and "length root + length project + 13 < PATH_MAX e"
    and "length project \<le> 33"
    and "\<forall>c\<in>set project. \<not> is_sep (os e) c"
    and "fs w = \<lparr>folders = {root}, files = Map.empty\<rparr>"
  shows "\<exists>w' header. main e [prog, project] w = Inr (0, w') \<and>
     files (fs w') (root @ sep e # ''test'' @ sep e # project @ ''_test.c'') =
       Some (if literals_shared e
             then ''#include \"'' @ header @ ''\"\<newline>\<newline>/* Code goes here */\<newline>\<newline>''
             else ''/* Project '' @ project @ ''_test */'')"
proof -
  from main_fresh_run [OF assms] obtain w' where
    "main e [prog, project] w = Inr (0, w')" "fs w' = layout e root project" by blast
  then show ?thesis
    by (intro exI [of _ w'] exI [of _ "project @ ''_test.h''"])
      (simp add: layout_def touch_text_def same_literal_def source_text_def generic_text_def)
qed

theorem test_file_by_extension_witness:
  "\<exists>w' header. main linux_env [''projc'', ''demo''] fresh_root = Inr (0, w') \<and>
     files (fs w') ''/w/demo/test/demo_test.c'' =
       Some (''#include \"'' @ header @ ''\"\<newline>\<newline>/* Code goes here */\<newline>\<newline>'')"
  using test_file_by_extension [of linux_env "''demo''" "''/w/demo''" fresh_root "''projc''"]
  by (simp add: linux_env_def fresh_root_def is_sep_def sep_def)

text \<open>
  C6.  The claim is that \<open>p_app.c\<close> includes the project header \<open>p.h\<close>.  \<^verbatim>\<open>create_files\<close>
  passes the suffixed name to \<^verbatim>\<open>touch\<close> as the project, so the file written for \<open>demo\<close>
  includes \<open>demo_app.h\<close>, a header the run never creates.
\<close>

theorem app_file_includes_app_header:
  "(case main linux_env [''projc'', ''demo''] fresh_root of
      Inl x \<Rightarrow> None
    | Inr (c, w) \<Rightarrow> files (fs w) ''/w/demo/src/demo_app.c'') =
   Some ''#include \"demo_app.h\"\<newline>\<newline>/* Code goes here */\<newline>\<newline>''"
proof -
  from demo_run obtain w' where "main linux_env [''projc'', ''demo''] fresh_root = Inr (0, w')"
    "fs w' = layout linux_env ''/w/demo'' ''demo''" by blast
  then show ?thesis
    by (simp add: layout_def linux_env_def sep_def touch_text_def same_literal_def source_text_def)
qed

section \<open>The build file\<close>

lemma make_contents_lines:
  "make_contents project =
     macro_block @
     ''_DEPS = '' @ project @ ''.h\<newline>'' @ deps_rule @
     ''_OBJ = '' @ project @ ''.o '' @ project @ ''_test.o\<newline>'' @ obj_rule @
     compile_rule @
     project @ ''_app'' @ link_rule"
  by (simp add: make_contents_def GCC_MAKE_MACROS_def GCC_MAKE_DEPS_def GCC_MAKE_OBJ_def
      GCC_MAKE_OBJ_BUILD_def GCC_MAKE_PHONY_def macro_block_def deps_rule_def obj_rule_def
      compile_rule_def link_rule_def)

lemma demo_makefile:
  "makefile_create linux_env ''Makefile'' ''demo'' ''/w/demo'' (fs fresh_root) =
   Inr (1, (fs fresh_root)\<lparr>files := (files (fs fresh_root))(''/w/demo/Makefile'' \<mapsto> make_contents ''demo'')\<rparr>)"
  using makefile_create_fresh [of "''/w/demo''" "''Makefile''" linux_env "fs fresh_root" "''demo''"]
  by (simp add: linux_env_def fresh_root_def stat_def is_sep_def sep_def)

text \<open>
  C3, as claimed: the build file names \<open>p_test.o\<close> as the only object and carries the
  project name at three places.  The file written for \<open>demo\<close> differs from that text: its
  object line is \<open>_OBJ = demo.o demo_test.o\<close>.
\<close>

theorem makefile_has_two_objects:
  "(case makefile_create linux_env ''Makefile'' ''demo'' ''/w/demo'' (fs fresh_root) of
      Inl x \<Rightarrow> None
    | Inr (r, f) \<Rightarrow> files f ''/w/demo/Makefile'') = Some (make_contents ''demo'') \<and>
   make_contents ''demo'' \<noteq> claimed_make_contents ''demo'' \<and>
   take 25 (drop 124 (make_contents ''demo'')) = ''_OBJ = demo.o demo_test.o''"
  by (simp add: demo_makefile make_contents_lines claimed_make_contents_def macro_block_def
      deps_rule_def)

text \<open>
  C3, amended: whenever \<^verbatim>\<open>makefile_create\<close> creates a build file, under either name, its
  content is the macro block, the dependency list \<open>_DEPS = p.h\<close>, the object list
  \<open>_OBJ = p.o p_test.o\<close> naming two objects, the generic compile rule, and the target
  \<open>p_app\<close> built from the object list, followed by the \<open>clean\<close> placeholder.  The project
  name stands at four places.
\<close>

theorem makefile_structure:
  assumes "makefile_create e makename project dirname f = Inr (1, f')"
  shows "files f' (dirname @ sep e # makename) =
     Some (macro_block @
           ''_DEPS = '' @ project @ ''.h\<newline>'' @ deps_rule @
           ''_OBJ = '' @ project @ ''.o '' @ project @ ''_test.o\<newline>'' @ obj_rule @
           compile_rule @
           project @ ''_app'' @ link_rule)"
  using makefile_create_result [OF assms] by (simp add: make_contents_lines)

theorem makefile_structure_witness:
  "makefile_create linux_env ''Makefile'' ''demo'' ''/w/demo'' (fs fresh_root) =
     Inr (1, (fs fresh_root)\<lparr>files := (files (fs fresh_root))(''/w/demo/Makefile'' \<mapsto> make_contents ''demo'')\<rparr>) \<and>
   make_contents ''demo'' =
     macro_block @
     ''_DEPS = demo.h\<newline>'' @ deps_rule @
     ''_OBJ = demo.o demo_test.o\<newline>'' @ obj_rule @
     compile_rule @
     ''demo_app'' @ link_rule"
  using makefile_structure [OF demo_makefile] demo_makefile
  by (simp add: linux_env_def sep_def)







section \<open>A path that does not resolve\<close>

lemma main_unresolved:
  assumes "canonical e name = None" and "length name < PATH_MAX e"
  shows "main e [prog, name] w = scaffold e (c_str (stack_dirname e)) name w"
  using assms by (simp add: main_def abspath_def strcpy_to_def sprintf_to_def)

text \<open>
  C8.  The claim is that a path which cannot be canonicalised ends the program with
  exit status 1 before anything is created.  \<^verbatim>\<open>main\<close> drops the result of \<^verbatim>\<open>abspath\<close> and
  tests the address of its buffer instead, so it goes on with whatever the buffer
  holds: here the empty string, and the run scaffolds the root directory and returns 0.
\<close>

theorem unresolved_path_still_scaffolds:
  "abspath linux_env ''nosuch'' = None \<and>
   (case main linux_env [''projc'', ''nosuch''] empty_disk of
      Inl x \<Rightarrow> False
    | Inr (c, w) \<Rightarrow> c = 0 \<and> ''/lib'' \<in> folders (fs w) \<and>
                    files (fs w) ''/Makefile'' = Some (make_contents ''nosuch''))"
proof -
  have "main linux_env [''projc'', ''nosuch''] empty_disk = scaffold linux_env [] ''nosuch'' empty_disk"
    using main_unresolved [of linux_env "''nosuch''" "''projc''" empty_disk]
    by (simp add: linux_env_def c_str_def)
  moreover have "\<exists>w'. scaffold linux_env [] ''nosuch'' empty_disk = Inr (0, w') \<and>
      fs w' = layout linux_env [] ''nosuch''"
    by (rule scaffold_fresh) (simp_all add: linux_env_def empty_disk_def is_sep_def)
  ultimately obtain w' where "main linux_env [''projc'', ''nosuch''] empty_disk = Inr (0, w')"
    "fs w' = layout linux_env [] ''nosuch''" by auto
  then show ?thesis
    by (simp add: layout_def abspath_def linux_env_def sep_def)
qed

section \<open>Paths at the limit\<close>

lemma touch_too_long:
  "PATH_MAX e < length path + length project + length ext \<Longrightarrow>
   touch e path project ext f = Inr (0, f)"
  by (simp add: touch_def)

lemma makefile_create_overflow:
  "PATH_MAX e \<le> length dirname + length makename + 1 \<Longrightarrow>
   makefile_create e makename project dirname f = Inl BufferOverflow"
  by (simp add: makefile_create_def sprintf_to_def)

lemma length_deep_root: "length deep_root = 251"
  by (simp add: deep_root_def)

lemma deep_tree:
  "\<exists>w'. create_tree windows_env deep_root deep_world = Inr w' \<and>
        fs w' = \<lparr>folders = {deep_root @ CHR 0x5C # ''include'', deep_root @ CHR 0x5C # ''test'',
                             deep_root @ CHR 0x5C # ''src'', deep_root @ CHR 0x5C # ''lib'', deep_root},
                  files = Map.empty\<rparr>"
proof -
  have e: "sep windows_env = CHR 0x5C" "PATH_MAX windows_env = 260" "os windows_env = Windows"
    by (simp_all add: windows_env_def sep_def)
  show ?thesis
    by (simp add: create_tree_def create_tree_body_def create_tree_dirs_def upt_0_4
        sprintf_to_def create_dir_fresh e length_deep_root deep_world_def printf_def
        stat_def is_sep_def)
qed

text \<open>
  C9.  The claim is that every artifact, the two build files included, is guarded by a
  path-length test, so that a path over the limit fails that artifact alone.  With a
  root of 251 characters on Windows \<^verbatim>\<open>touch\<close> declines by its test and returns 0, but
  \<^verbatim>\<open>makefile_create\<close> has no test and writes 261 bytes into its buffer of 260: the call,
  and with it the whole run, is a buffer overflow.
\<close>

theorem makefile_path_unchecked:
  "touch windows_env (deep_root @ CHR 0x5C # ''lib'') ''demo'' ''.h'' (fs deep_world) =
     Inr (0, fs deep_world) \<and>
   makefile_create windows_env ''Makefile'' ''demo'' deep_root (fs deep_world) =
     Inl BufferOverflow \<and>
   main windows_env [''projc'', ''demo''] deep_world = Inl BufferOverflow"
proof -
  have e: "sep windows_env = CHR 0x5C" "PATH_MAX windows_env = 260" "os windows_env = Windows"
    "canonical windows_env ''demo'' = Some deep_root"
    by (simp_all add: windows_env_def sep_def)
  have t: "touch windows_env (deep_root @ CHR 0x5C # ''lib'') ''demo'' ''.h'' f = Inr (0, f)"
    "touch windows_env (deep_root @ CHR 0x5C # ''lib'') ''demo'' ''.c'' f = Inr (0, f)"
    "touch windows_env (deep_root @ CHR 0x5C # ''src'') ''demo_app'' ''.c'' f = Inr (0, f)"
    "touch windows_env (deep_root @ CHR 0x5C # ''test'') ''demo_test'' ''.c'' f = Inr (0, f)" for f
    by (simp_all add: touch_too_long e length_deep_root)
  have m: "makefile_create windows_env ''Makefile'' ''demo'' deep_root f = Inl BufferOverflow" for f
    by (simp add: makefile_create_overflow e length_deep_root)
  from deep_tree obtain w1 where w1: "create_tree windows_env deep_root deep_world = Inr w1" by blast
  have "main windows_env [''projc'', ''demo''] deep_world = Inl BufferOverflow"
    by (simp add: main_def abspath_def e length_deep_root strcpy_to_def sprintf_to_def
        scaffold_def w1 create_files_unrolled touch_wrap_def t
        create_makes_def create_makes_body_def upt_0_2 mks_def m)
  with t(1) m show ?thesis by simp
qed

end
